theory Spec2Isabelle
  imports Complex_Main
begin

section \<open>Python values used by the risk engine\<close>

text \<open>
  Python floats are modelled as \<^typ>\<open>real\<close>: the engine only adds constants and
  compares against thresholds. Python \<open>str\<close> values that the engine inspects are
  modelled as \<^typ>\<open>string\<close>.

  \<open>str.lower()\<close> and \<open>str.capitalize()\<close> are modelled on the ASCII letters; every
  other character is left as it is. The model is exact on ASCII strings. Outside ASCII
  Python also changes the case of accented letters, and \<open>str.capitalize()\<close> can lengthen
  a string there; the sector names the engine compares against are ASCII, and no
  character of a \<^typ>\<open>string\<close> outside ASCII lower-cases to one of their letters, so the
  comparisons of a sector against these names are not affected. The capitalised sector
  in the explanation of the weighted engine is that of Python for ASCII sectors.
\<close>

definition lower_char :: "char \<Rightarrow> char" where
  "lower_char c =
     (let n = (of_char c :: nat) in if 65 \<le> n \<and> n \<le> 90 then char_of (n + 32) else c)"

definition upper_char :: "char \<Rightarrow> char" where
  "upper_char c =
     (let n = (of_char c :: nat) in if 97 \<le> n \<and> n \<le> 122 then char_of (n - 32) else c)"

definition lower :: "string \<Rightarrow> string" where
  "lower s = map lower_char s"

fun capitalize :: "string \<Rightarrow> string" where
  "capitalize [] = []"
| "capitalize (c # cs) = upper_char c # lower cs"

text \<open>
  The values of \<open>additional_factors: Dict[str, Any]\<close> arrive as JSON, so \<open>Any\<close> is a
  JSON value. A dictionary is an association list in insertion order.
\<close>

datatype json =
    JNull
  | JBool bool
  | JNumber real
  | JString string
  | JArray "json list"
  | JObject "(string \<times> json) list"

type_synonym factors = "(string \<times> json) list"

section \<open>app/logic/risk\_scoring.py: the additive engine\<close>

text \<open>
  \<open>compute_risk_score\<close> of \<open>risk_scoring.py\<close>, in the order of its statements. The
  pair \<open>(score, explanations)\<close> is the state the statements update.

  Lines 41 to 72: the five rules.
\<close>

definition scoring_rules :: "real \<Rightarrow> real \<Rightarrow> real \<Rightarrow> real \<Rightarrow> string \<Rightarrow> real \<times> string list" where
  "scoring_rules debt_to_equity net_profit negative_news_score late_payments_rate sector =
     (let score = 0;
          explanations = [];
          (score, explanations) =
            (if debt_to_equity > 2
             then (score + 0.3, explanations @ [''High debt-to-equity ratio''])
             else (score, explanations));
          (score, explanations) =
            (if net_profit < 0
             then (score + 0.2, explanations @ [''Negative profitability''])
             else (score, explanations));
          (score, explanations) =
            (if negative_news_score > 0.5
             then (score + 0.2, explanations @ [''Significant negative news''])
             else (score, explanations));
          (score, explanations) =
            (if late_payments_rate > 0.1
             then (score + 0.15, explanations @ [''High late payments rate''])
             else (score, explanations));
          (score, explanations) =
            (if lower sector \<in> set [''oil'', ''gas'', ''energy'']
             then (score + 0.1, explanations @ [''High-volatility sector''])
             else (score, explanations))
      in (score, explanations))"

text \<open>
  Lines 74 to 78: the loop over \<open>additional_factors.items()\<close>. Its body only writes a
  debug line, so one iteration returns the state it was given. The loop is skipped when
  the argument is \<open>None\<close> or an empty dictionary (\<open>if additional_factors:\<close>).
\<close>

definition process_factor :: "real \<times> string list \<Rightarrow> string \<times> json \<Rightarrow> real \<times> string list" where
  "process_factor st item = (case item of (factor, v) \<Rightarrow> st)"

definition process_additional_factors :: "factors option \<Rightarrow> real \<times> string list \<Rightarrow> real \<times> string list" where
  "process_additional_factors additional_factors st =
     (case additional_factors of
        None \<Rightarrow> st
      | Some items \<Rightarrow> if items = [] then st else foldl process_factor st items)"

text \<open>Lines 80 to 83: the cap. Lines 85 to 91: the risk level.\<close>

definition cap_score :: "real \<Rightarrow> real" where
  "cap_score score = (if score > 1 then 1.0 else score)"

definition scoring_risk_level :: "real \<Rightarrow> string" where
  "scoring_risk_level score =
     (if score \<ge> 0.7 then ''High Risk''
      else if score \<ge> 0.4 then ''Medium Risk''
      else ''Low Risk'')"

definition scoring_compute_risk_score ::
  "string \<Rightarrow> string \<Rightarrow> real \<Rightarrow> real \<Rightarrow> real \<Rightarrow> real \<Rightarrow> string \<Rightarrow> factors option
     \<Rightarrow> real \<times> string \<times> string list" where
  "scoring_compute_risk_score user_id company_name debt_to_equity net_profit
       negative_news_score late_payments_rate sector additional_factors =
     (let (score, explanations) =
            scoring_rules debt_to_equity net_profit negative_news_score late_payments_rate sector;
          (score, explanations) = process_additional_factors additional_factors (score, explanations);
          score = cap_score score;
          risk_level = scoring_risk_level score
      in (score, risk_level, explanations))"

section \<open>app/logic/risk\_calculator.py: the weighted engine\<close>

text \<open>
  Exceptions are values: a dictionary subscript on a missing key raises \<open>KeyError\<close>, a
  float division by zero raises \<open>ZeroDivisionError\<close>. The other constructors are the
  failures of the collaborators of \<open>routes.py\<close> and \<open>models.py\<close>.
\<close>

datatype exn =
    KeyError string
  | ZeroDivisionError
  | JSONDecodeError string
  | NotAStringList
  | SQLAlchemyError string

definition getitem :: "(string \<times> 'a) list \<Rightarrow> string \<Rightarrow> exn + 'a" where
  "getitem d k = (case map_of d k of None \<Rightarrow> Inl (KeyError k) | Some v \<Rightarrow> Inr v)"

definition bind :: "exn + 'a \<Rightarrow> ('a \<Rightarrow> exn + 'b) \<Rightarrow> exn + 'b" where
  "bind m f = (case m of Inl e \<Rightarrow> Inl e | Inr x \<Rightarrow> f x)"

definition WEIGHTS :: "(string \<times> real) list" where
  "WEIGHTS =
     [(''debt_to_equity'', 0.30),
      (''net_profit'', 0.25),
      (''negative_news'', 0.20),
      (''late_payments'', 0.25)]"

definition SECTOR_ADJUSTMENTS :: "(string \<times> real) list" where
  "SECTOR_ADJUSTMENTS =
     [(''technology'', 1.0),
      (''healthcare'', 0.9),
      (''finance'', 1.2),
      (''retail'', 1.1),
      (''manufacturing'', 1.05),
      (''energy'', 1.3),
      (''oil'', 1.3),
      (''gas'', 1.3),
      (''real_estate'', 1.15),
      (''telecommunications'', 0.95),
      (''utilities'', 0.85),
      (''consumer_goods'', 1.0),
      (''general'', 1.0)]"

text \<open>
  Each factor function appends one explanation to the list it is given and returns its
  factor; the model returns the factor with the extended list.
\<close>

definition calculate_debt_to_equity_factor :: "real \<Rightarrow> string list \<Rightarrow> real \<times> string list" where
  "calculate_debt_to_equity_factor debt_to_equity explanations =
     (if debt_to_equity \<le> 1.0
      then (0.2, explanations @ [''Debt-to-equity ratio is within healthy range''])
      else if debt_to_equity \<le> 2.0
      then (0.5, explanations @ [''Debt-to-equity ratio indicates moderate financial leverage''])
      else if debt_to_equity \<le> 3.0
      then (0.7, explanations @ [''High debt-to-equity ratio increases financial risk''])
      else (1.0, explanations @
              [''Very high debt-to-equity ratio indicates significant financial leverage'']))"

definition calculate_net_profit_factor :: "real \<Rightarrow> string list \<Rightarrow> real \<times> string list" where
  "calculate_net_profit_factor net_profit explanations =
     (if net_profit > 500000
      then (0.1, explanations @
              [''Strong positive net profit indicates excellent financial health''])
      else if net_profit > 100000
      then (0.3, explanations @ [''Positive net profit indicates good financial health''])
      else if net_profit > 0
      then (0.5, explanations @ [''Modest positive net profit''])
      else if net_profit > - 100000
      then (0.7, explanations @ [''Negative net profit shows concerning financial performance''])
      else (1.0, explanations @ [''Significant losses indicate serious financial challenges'']))"

definition calculate_negative_news_factor :: "real \<Rightarrow> string list \<Rightarrow> real \<times> string list" where
  "calculate_negative_news_factor negative_news_score explanations =
     (if negative_news_score \<le> 0.2
      then (0.2, explanations @ [''Low negative news coverage''])
      else if negative_news_score \<le> 0.4
      then (0.5, explanations @ [''Moderate negative news coverage''])
      else if negative_news_score \<le> 0.6
      then (0.7, explanations @ [''Negative press coverage may impact business reputation''])
      else (1.0, explanations @
              [''High negative news coverage suggests significant reputational risk'']))"

definition calculate_late_payments_factor :: "real \<Rightarrow> string list \<Rightarrow> real \<times> string list" where
  "calculate_late_payments_factor late_payments_rate explanations =
     (if late_payments_rate \<le> 0.05
      then (0.1, explanations @
              [''Low rate of late payments suggests good cash flow management''])
      else if late_payments_rate \<le> 0.1
      then (0.4, explanations @ [''Moderate rate of late payments''])
      else if late_payments_rate \<le> 0.2
      then (0.7, explanations @ [''Elevated late payments rate may indicate cash flow issues''])
      else (1.0, explanations @ [''High rate of late payments suggests cash flow problems'']))"

text \<open>Lines 79 to 84: the weighted base score, its subscripts read from left to right.\<close>

definition weighted_base_score :: "real \<Rightarrow> real \<Rightarrow> real \<Rightarrow> real \<Rightarrow> exn + real" where
  "weighted_base_score debt_factor profit_factor news_factor payments_factor =
     bind (getitem WEIGHTS ''debt_to_equity'') (\<lambda>w_debt.
     bind (getitem WEIGHTS ''net_profit'') (\<lambda>w_profit.
     bind (getitem WEIGHTS ''negative_news'') (\<lambda>w_news.
     bind (getitem WEIGHTS ''late_payments'') (\<lambda>w_payments.
       let total = sum_list (map snd WEIGHTS)
       in if total = 0 then Inl ZeroDivisionError
          else Inr ((w_debt * debt_factor + w_profit * profit_factor +
                     w_news * news_factor + w_payments * payments_factor) / total)))))"

text \<open>
  Lines 87 to 95: \<open>SECTOR_ADJUSTMENTS.get(sector_key, SECTOR_ADJUSTMENTS["general"])\<close>
  evaluates its default first, then one explanation names the capitalised sector.
\<close>

definition sector_multiplier_of :: "string \<Rightarrow> exn + real" where
  "sector_multiplier_of sector_key =
     bind (getitem SECTOR_ADJUSTMENTS ''general'') (\<lambda>dflt.
       Inr (case map_of SECTOR_ADJUSTMENTS sector_key of None \<Rightarrow> dflt | Some m \<Rightarrow> m))"

definition sector_explanation :: "string \<Rightarrow> real \<Rightarrow> string" where
  "sector_explanation sector sector_multiplier =
     (if sector_multiplier > 1.0
      then capitalize sector @ '' sector has higher than average baseline risk''
      else if sector_multiplier < 1.0
      then capitalize sector @ '' sector has lower than average baseline risk''
      else capitalize sector @ '' sector has moderate baseline risk'')"

text \<open>
  Lines 106 to 109: the loop over \<open>additional_factors.items()\<close> of this module; as in
  \<open>risk_scoring.py\<close> its body only writes a debug line.
\<close>

definition calculator_process_factor ::
  "real \<times> string list \<Rightarrow> string \<times> json \<Rightarrow> real \<times> string list" where
  "calculator_process_factor st item = (case item of (factor, v) \<Rightarrow> st)"

definition calculator_process_additional_factors ::
  "factors option \<Rightarrow> real \<times> string list \<Rightarrow> real \<times> string list" where
  "calculator_process_additional_factors additional_factors st =
     (case additional_factors of
        None \<Rightarrow> st
      | Some items \<Rightarrow> if items = [] then st else foldl calculator_process_factor st items)"

definition calculator_risk_level :: "real \<Rightarrow> string" where
  "calculator_risk_level final_score =
     (if final_score \<ge> 71 then ''High Risk''
      else if final_score \<ge> 41 then ''Medium Risk''
      else ''Low Risk'')"

definition calculator_compute_risk_score ::
  "string \<Rightarrow> string \<Rightarrow> real \<Rightarrow> real \<Rightarrow> real \<Rightarrow> real \<Rightarrow> string \<Rightarrow> factors option
     \<Rightarrow> exn + (real \<times> string \<times> string list)" where
  "calculator_compute_risk_score user_id company_name debt_to_equity net_profit
       negative_news_score late_payments_rate sector additional_factors =
     (let explanations = [];
          (debt_factor, explanations) =
             calculate_debt_to_equity_factor debt_to_equity explanations;
          (profit_factor, explanations) = calculate_net_profit_factor net_profit explanations;
          (news_factor, explanations) =
             calculate_negative_news_factor negative_news_score explanations;
          (payments_factor, explanations) =
             calculate_late_payments_factor late_payments_rate explanations
      in bind (weighted_base_score debt_factor profit_factor news_factor payments_factor)
           (\<lambda>base_score.
         let sector_key = lower sector
         in bind (sector_multiplier_of sector_key) (\<lambda>sector_multiplier.
              let explanations = explanations @ [sector_explanation sector sector_multiplier];
                  final_score = base_score * sector_multiplier * 100;
                  final_score = (if final_score > 100 then 100.0 else final_score);
                  (final_score, explanations) =
                     calculator_process_additional_factors additional_factors
                       (final_score, explanations);
                  risk_level = calculator_risk_level final_score
              in Inr (final_score, risk_level, explanations))))"

text \<open>Lines 222 to 258: the recommendations.\<close>

definition get_risk_recommendations :: "string \<Rightarrow> real \<Rightarrow> string \<Rightarrow> string list" where
  "get_risk_recommendations risk_level score sector =
     (let recommendations = []
      in if risk_level = ''High Risk'' then
           (let recommendations = recommendations @
                  [''Conduct immediate comprehensive financial review''];
                recommendations = recommendations @ [''Develop debt reduction strategy''];
                recommendations = recommendations @
                  [''Implement stricter accounts receivable policies''];
                recommendations =
                  (if lower sector \<in> set [''retail'', ''manufacturing'']
                   then recommendations @
                          [''Review inventory management to improve cash flow'']
                   else recommendations);
                recommendations =
                  (if score > 85
                   then recommendations @
                          [''Consider external financial expertise/restructuring'']
                   else recommendations)
            in recommendations)
         else if risk_level = ''Medium Risk'' then
           (let recommendations = recommendations @
                  [''Quarterly financial health monitoring recommended''];
                recommendations = recommendations @
                  [''Develop action plan for identified risk areas''];
                recommendations =
                  (if lower sector \<in> set [''technology'', ''finance'']
                   then recommendations @
                          [''Evaluate competitive positioning in volatile market'']
                   else recommendations)
            in recommendations)
         else
           (let recommendations = recommendations @ [''Maintain current financial practices''];
                recommendations = recommendations @ [''Annual risk reassessment recommended'']
            in recommendations))"

section \<open>Python's json module on lists of strings\<close>

text \<open>
  \<open>models.py\<close> stores the explanations with \<open>json.dumps\<close> and reads them back with
  \<open>json.loads\<close>. Both belong to the Python standard library; this section models them
  on the values the model class passes, lists of strings, after \<open>json/encoder.py\<close> and
  \<open>json/decoder.py\<close> of CPython 3.11.

  A Python \<open>str\<close> is a sequence of code points, here a list of natural numbers below
  \<open>0x110000\<close>. The JSON text \<open>json.dumps\<close> writes is ASCII, a \<^typ>\<open>string\<close>.
\<close>

type_synonym pystr = "nat list"

definition unicode :: "string \<Rightarrow> pystr" where
  "unicode s = map of_char s"

definition hex_digit :: "nat \<Rightarrow> char" where
  "hex_digit d = (if d < 10 then char_of (48 + d) else char_of (87 + d))"

text \<open>\<open>'{0:04x}'.format(n)\<close> for \<open>n < 0x10000\<close>: four lower-case hexadecimal digits.\<close>

definition hex4 :: "nat \<Rightarrow> string" where
  "hex4 n =
     [hex_digit (n div 4096 mod 16), hex_digit (n div 256 mod 16),
      hex_digit (n div 16 mod 16), hex_digit (n mod 16)]"

definition ESCAPE_DCT :: "(nat \<times> string) list" where
  "ESCAPE_DCT =
     [(0x5C, [CHR 0x5C, CHR 0x5C]),
      (0x22, [CHR 0x5C, CHR 0x22]),
      (0x08, [CHR 0x5C, CHR ''b'']),
      (0x0C, [CHR 0x5C, CHR ''f'']),
      (0x0A, [CHR 0x5C, CHR ''n'']),
      (0x0D, [CHR 0x5C, CHR ''r'']),
      (0x09, [CHR 0x5C, CHR ''t''])]"

text \<open>
  \<open>replace\<close> of \<open>py_encode_basestring_ascii\<close>. The entries \<open>ESCAPE_DCT\<close> gets by
  \<open>setdefault\<close> for the other control characters are the \<open>\u\<close> escapes of the second
  branch. For a code point from \<open>0x10000\<close> on, Python computes the surrogates as
  \<open>0xd800 | ((n >> 10) & 0x3ff)\<close> and \<open>0xdc00 | (n & 0x3ff)\<close>; the operands of each
  \<open>|\<close> share no bit, so it is the sum written here.
\<close>

definition replace :: "nat \<Rightarrow> string" where
  "replace n =
     (case map_of ESCAPE_DCT n of
        Some e \<Rightarrow> e
      | None \<Rightarrow>
          if n < 0x10000 then [CHR 0x5C, CHR ''u''] @ hex4 n
          else
            (let n = n - 0x10000;
                 s1 = 0xd800 + (n div 1024) mod 1024;
                 s2 = 0xdc00 + n mod 1024
             in [CHR 0x5C, CHR ''u''] @ hex4 s1 @ [CHR 0x5C, CHR ''u''] @ hex4 s2))"

text \<open>
  \<open>ESCAPE_ASCII\<close> matches a backslash, a double quote and every character outside the
  range from space to tilde; every other character is copied.
\<close>

definition escape_ascii :: "nat \<Rightarrow> string" where
  "escape_ascii n =
     (if n = 0x5C \<or> n = 0x22 \<or> n < 0x20 \<or> 0x7E < n then replace n else [char_of n])"

definition py_encode_basestring_ascii :: "pystr \<Rightarrow> string" where
  "py_encode_basestring_ascii s = [CHR 0x22] @ concat (map escape_ascii s) @ [CHR 0x22]"

fun join :: "string \<Rightarrow> string list \<Rightarrow> string" where
  "join sep [] = []"
| "join sep [x] = x"
| "join sep (x # y # ys) = x @ sep @ join sep (y # ys)"

definition json_dumps :: "pystr list \<Rightarrow> string" where
  "json_dumps v =
     (if v = [] then ''[]''
      else ''['' @ join '', '' (map py_encode_basestring_ascii v) @ '']'')"

text \<open>
  The decoder. \<open>_decode_uXXXX\<close> reads four hexadecimal digits; the model reads them
  digit by digit (Python's \<open>int(esc, 16)\<close> also accepts signs, underscores and blanks,
  which \<open>json.dumps\<close> never writes). Its argument is the text after the \<open>u\<close>.
\<close>

definition hex_value :: "char \<Rightarrow> nat option" where
  "hex_value c =
     (let n = (of_char c :: nat)
      in if 48 \<le> n \<and> n \<le> 57 then Some (n - 48)
         else if 97 \<le> n \<and> n \<le> 102 then Some (n - 87)
         else if 65 \<le> n \<and> n \<le> 70 then Some (n - 55)
         else None)"

definition decode_uXXXX :: "string \<Rightarrow> exn + nat" where
  "decode_uXXXX s =
     (case map hex_value (take 4 s) of
        [Some a, Some b, Some c, Some d] \<Rightarrow> Inr (((a * 16 + b) * 16 + c) * 16 + d)
      | _ \<Rightarrow> Inl (JSONDecodeError ''Invalid uXXXX escape''))"

definition BACKSLASH :: "(char \<times> nat) list" where
  "BACKSLASH =
     [(CHR 0x22, 0x22), (CHR 0x5C, 0x5C), (CHR ''/'', 0x2F),
      (CHR ''b'', 0x08), (CHR ''f'', 0x0C), (CHR ''n'', 0x0A), (CHR ''r'', 0x0D),
      (CHR ''t'', 0x09)]"

text \<open>
  The escape branch of the loop of \<open>py_scanstring\<close>, entered after a backslash: the
  decoded character and the text that follows the escape. A high surrogate that is
  followed by the escape of a low surrogate is combined with it into one code point,
  \<open>0x10000 + (((uni - 0xd800) << 10) | (uni2 - 0xdc00))\<close>, again a sum.
\<close>

definition scan_escape :: "string \<Rightarrow> exn + (nat \<times> string)" where
  "scan_escape s =
     (case s of
        [] \<Rightarrow> Inl (JSONDecodeError ''Unterminated string starting at'')
      | esc # s1 \<Rightarrow>
          if esc \<noteq> CHR ''u'' then
            (case map_of BACKSLASH esc of
               None \<Rightarrow> Inl (JSONDecodeError ''Invalid escape'')
             | Some ch \<Rightarrow> Inr (ch, s1))
          else
            (case decode_uXXXX s1 of
               Inl e \<Rightarrow> Inl e
             | Inr uni \<Rightarrow>
                 let s2 = drop 4 s1
                 in if 0xd800 \<le> uni \<and> uni \<le> 0xdbff \<and> take 2 s2 = [CHR 0x5C, CHR ''u'']
                    then
                      (case decode_uXXXX (drop 2 s2) of
                         Inl e \<Rightarrow> Inl e
                       | Inr uni2 \<Rightarrow>
                           if 0xdc00 \<le> uni2 \<and> uni2 \<le> 0xdfff
                           then Inr (0x10000 + ((uni - 0xd800) * 1024 + (uni2 - 0xdc00)),
                                     drop 6 s2)
                           else Inr (uni, s2))
                    else Inr (uni, s2)))"

lemma scan_escape_length: "scan_escape s = Inr (ch, rest) \<Longrightarrow> length rest \<le> length s"
  unfolding scan_escape_def Let_def
  by (cases s) (simp_all split: if_splits option.splits sum.splits, auto)

text \<open>
  \<open>py_scanstring\<close>, started after the opening quote: the decoded string and the text
  after the closing quote.
\<close>

function scanstring :: "string \<Rightarrow> pystr \<Rightarrow> exn + (pystr \<times> string)" where
  "scanstring [] chunks = Inl (JSONDecodeError ''Unterminated string starting at'')"
| "scanstring (c # s) chunks =
     (if c = CHR 0x22 then Inr (chunks, s)
      else if c = CHR 0x5C then
        (case scan_escape s of
           Inl e \<Rightarrow> Inl e
         | Inr (ch, rest) \<Rightarrow> scanstring rest (chunks @ [ch]))
      else if (of_char c :: nat) < 0x20 then
        Inl (JSONDecodeError ''Invalid control character at'')
      else scanstring s (chunks @ [of_char c]))"
  by pat_completeness auto
termination
proof (relation "measure (\<lambda>(s, chunks). length s)", goal_cases)
  case 1
  show ?case by simp
next
  case (2 c s chunks x2 ch rest)
  then show ?case using scan_escape_length [of s ch rest] by simp
next
  case 3
  then show ?case by simp
qed

lemma scanstring_length: "scanstring s chunks = Inr (v, rest) \<Longrightarrow> length rest < length s"
proof (induction s chunks rule: scanstring.induct)
  case (1 chunks)
  then show ?case by simp
next
  case (2 c s chunks)
  show ?case
  proof (cases "c = CHR 0x22")
    case True
    with "2.prems" show ?thesis by simp
  next
    case quote: False
    show ?thesis
    proof (cases "c = CHR 0x5C")
      case True
      with quote "2.prems" obtain ch r where esc: "scan_escape s = Inr (ch, r)"
        and rec: "scanstring r (chunks @ [ch]) = Inr (v, rest)"
        by (auto split: sum.splits)
      from "2.IH"(1) [OF quote True esc refl rec] scan_escape_length [OF esc]
      show ?thesis by simp
    next
      case False
      with quote "2.prems" have ctl: "\<not> (of_char c :: nat) < 0x20"
        and rec: "scanstring s (chunks @ [of_char c]) = Inr (v, rest)"
        by (auto split: if_splits)
      from "2.IH"(2) [OF quote False ctl rec] show ?thesis by simp
    qed
  qed
qed

text \<open>\<open>WHITESPACE.match\<close>: the text after the leading blanks, tabs and line ends.\<close>

fun skip_ws :: "string \<Rightarrow> string" where
  "skip_ws [] = []"
| "skip_ws (c # s) =
     (if c \<in> set [CHR 0x20, CHR 0x09, CHR 0x0A, CHR 0x0D] then skip_ws s else c # s)"

lemma skip_ws_length: "length (skip_ws s) \<le> length s"
  by (induction s) auto

text \<open>
  The loop of \<open>JSONArray\<close>, at the start of a value. The model reads string values; on
  any other value it returns \<open>NotAStringList\<close>, where Python either raises or returns a
  list that does not hold strings only.
\<close>

function array_items :: "string \<Rightarrow> pystr list \<Rightarrow> exn + (pystr list \<times> string)" where
  "array_items s values =
     (case s of
        [] \<Rightarrow> Inl (JSONDecodeError ''Expecting value'')
      | c # s1 \<Rightarrow>
          if c \<noteq> CHR 0x22 then Inl NotAStringList
          else
            (case scanstring s1 [] of
               Inl e \<Rightarrow> Inl e
             | Inr (v, s2) \<Rightarrow>
                 (case skip_ws s2 of
                    [] \<Rightarrow> Inl (JSONDecodeError ''Expecting , delimiter'')
                  | nextchar # s3 \<Rightarrow>
                      if nextchar = CHR '']'' then Inr (values @ [v], s3)
                      else if nextchar \<noteq> CHR '','' then
                        Inl (JSONDecodeError ''Expecting , delimiter'')
                      else array_items (skip_ws s3) (values @ [v]))))"
  by pat_completeness auto
termination
proof (relation "measure (\<lambda>(s, vals). length s)", goal_cases)
  case 1
  show ?case by simp
next
  case (2 s vals c s1 x2 v s2 nextchar s3)
  have "length (skip_ws s3) \<le> length s3"
    by (rule skip_ws_length)
  moreover from 2 have "length s3 < length (skip_ws s2)"
    by simp
  moreover have "length (skip_ws s2) \<le> length s2"
    by (rule skip_ws_length)
  moreover from 2 have "length s2 < length s1"
    using scanstring_length [of s1 "[]" v s2] by simp
  ultimately show ?case using 2 by simp
qed

declare array_items.simps [simp del]

definition JSONArray :: "string \<Rightarrow> exn + (pystr list \<times> string)" where
  "JSONArray s =
     (case skip_ws s of
        [] \<Rightarrow> array_items [] []
      | nextchar # s1 \<Rightarrow>
          if nextchar = CHR '']'' then Inr ([], s1) else array_items (nextchar # s1) [])"

text \<open>
  \<open>json.loads\<close>: leading blanks, one value, trailing blanks, then the end of the text.
  The model reads an array of strings, as \<open>array_items\<close> does.
\<close>

definition json_loads :: "string \<Rightarrow> exn + pystr list" where
  "json_loads s =
     (case skip_ws s of
        [] \<Rightarrow> Inl (JSONDecodeError ''Expecting value'')
      | c # s1 \<Rightarrow>
          if c \<noteq> CHR ''['' then Inl NotAStringList
          else
            (case JSONArray s1 of
               Inl e \<Rightarrow> Inl e
             | Inr (values, s2) \<Rightarrow>
                 if skip_ws s2 = [] then Inr values
                 else Inl (JSONDecodeError ''Extra data'')))"

text \<open>
  The code points of a Python \<open>str\<close> lie below \<open>0x110000\<close>; \<open>is_str\<close> says so of a
  list of natural numbers. A \<open>str\<close> may hold surrogates, the code points from \<open>0xd800\<close>
  to \<open>0xdfff\<close>, on their own. \<open>no_surrogate_pair\<close> holds of the strings in which no
  high surrogate is directly followed by a low surrogate.
\<close>

definition is_str :: "pystr \<Rightarrow> bool" where
  "is_str s = list_all (\<lambda>n. n < 0x110000) s"

definition high_surrogate :: "nat \<Rightarrow> bool" where
  "high_surrogate n = (0xd800 \<le> n \<and> n \<le> 0xdbff)"

definition low_surrogate :: "nat \<Rightarrow> bool" where
  "low_surrogate n = (0xdc00 \<le> n \<and> n \<le> 0xdfff)"

fun no_surrogate_pair :: "pystr \<Rightarrow> bool" where
  "no_surrogate_pair (a # b # s) =
     (\<not> (high_surrogate a \<and> low_surrogate b) \<and> no_surrogate_pair (b # s))"
| "no_surrogate_pair s = True"

section \<open>app/models.py: the stored evaluation\<close>

text \<open>
  \<open>RiskEvaluation\<close>: one field for each column, \<open>None\<close> while the column is unset.
  The field names carry the prefix \<open>ev_\<close>, since the plain column names are the
  parameter names of the engines. \<open>explanations_json\<close> is the text column behind the
  \<open>explanations\<close> property.
\<close>

record RiskEvaluation =
  ev_id :: "int option"
  ev_user_id :: "string option"
  ev_company_name :: "string option"
  ev_sector :: "string option"
  ev_debt_to_equity :: "real option"
  ev_net_profit :: "real option"
  ev_negative_news_score :: "real option"
  ev_late_payments_rate :: "real option"
  ev_risk_score :: "real option"
  ev_recommendation :: "string option"
  explanations_json :: "string option"
  ev_created_at :: "nat option"

text \<open>
  The getter of the property (lines 35 to 40): \<open>None\<close> and the empty text are falsy and
  give the empty list; any other text is decoded, and a decoding error is raised to the
  caller.
\<close>

definition explanations :: "RiskEvaluation \<Rightarrow> exn + pystr list" where
  "explanations self =
     (case explanations_json self of
        None \<Rightarrow> Inr []
      | Some text \<Rightarrow> if text = [] then Inr [] else json_loads text)"

text \<open>The setter of the property (lines 42 to 45).\<close>

definition explanations_setter :: "RiskEvaluation \<Rightarrow> pystr list \<Rightarrow> RiskEvaluation" where
  "explanations_setter self v = self\<lparr>explanations_json := Some (json_dumps v)\<rparr>"

text \<open>\<open>RiskEvaluation()\<close> with no keyword argument: every column unset.\<close>

definition new_RiskEvaluation :: RiskEvaluation where
  "new_RiskEvaluation =
     \<lparr>ev_id = None, ev_user_id = None, ev_company_name = None, ev_sector = None,
      ev_debt_to_equity = None, ev_net_profit = None, ev_negative_news_score = None,
      ev_late_payments_rate = None, ev_risk_score = None, ev_recommendation = None,
      explanations_json = None, ev_created_at = None\<rparr>"

section \<open>app/routes.py: the evaluate route\<close>

text \<open>
  \<open>RiskRequest\<close> and the response dictionary, with the prefixes \<open>req_\<close> and \<open>resp_\<close>
  on the field names of the source.
\<close>

record RiskRequest =
  req_user_id :: string
  req_companyName :: string
  req_debtToEquity :: real
  req_netProfit :: real
  req_negativeNewsScore :: real
  req_latePaymentsRate :: real
  req_sector :: string
  req_additionalFactors :: factors

record RiskResponse =
  resp_score :: real
  resp_explanations :: "string list"
  resp_recommendation :: string
  resp_recommendations :: "string list"
  resp_evaluation_id :: "int option"

text \<open>
  The database session is a collaborator. The model gives it one outcome for each call
  the route makes: \<open>add\<close>, \<open>commit\<close> and \<open>rollback\<close> return or raise, \<open>refresh\<close>
  raises or returns the row as the store holds it, with its \<open>id\<close>.
\<close>

record Session =
  db_add :: "RiskEvaluation \<Rightarrow> exn option"
  db_commit :: "RiskEvaluation \<Rightarrow> exn option"
  db_refresh :: "RiskEvaluation \<Rightarrow> exn + RiskEvaluation"
  db_rollback :: "exn option"

datatype http_error = HTTPException nat exn

text \<open>
  Lines 89 to 105, the body of the inner \<open>try\<close>: build the row (the keyword
  \<open>explanations\<close> goes through the setter of the property), add, commit, refresh, read
  the id.
\<close>

definition store_attempt ::
  "RiskRequest \<Rightarrow> Session \<Rightarrow> real \<Rightarrow> string \<Rightarrow> string list \<Rightarrow> exn + int option" where
  "store_attempt req db score risk_level explanation_list =
     (let db_evaluation =
            explanations_setter
              (new_RiskEvaluation
                 \<lparr>ev_user_id := Some (req_user_id req),
                  ev_company_name := Some (req_companyName req),
                  ev_sector := Some (req_sector req),
                  ev_debt_to_equity := Some (req_debtToEquity req),
                  ev_net_profit := Some (req_netProfit req),
                  ev_negative_news_score := Some (req_negativeNewsScore req),
                  ev_late_payments_rate := Some (req_latePaymentsRate req),
                  ev_risk_score := Some score,
                  ev_recommendation := Some risk_level\<rparr>)
              (map unicode explanation_list)
      in case db_add db db_evaluation of
           Some e \<Rightarrow> Inl e
         | None \<Rightarrow>
             (case db_commit db db_evaluation of
                Some e \<Rightarrow> Inl e
              | None \<Rightarrow>
                  (case db_refresh db db_evaluation of
                     Inl e \<Rightarrow> Inl e
                   | Inr db_evaluation \<Rightarrow> Inr (ev_id db_evaluation))))"

text \<open>
  Lines 88 to 109, the inner \<open>try\<close> with its handler: when the body raises, the handler
  rolls the session back and sets \<open>evaluation_id\<close> to \<open>None\<close>. An exception that the
  rollback raises leaves the handler.
\<close>

definition store_evaluation ::
  "RiskRequest \<Rightarrow> Session \<Rightarrow> real \<Rightarrow> string \<Rightarrow> string list \<Rightarrow> exn + int option" where
  "store_evaluation req db score risk_level explanation_list =
     (case store_attempt req db score risk_level explanation_list of
        Inr evaluation_id \<Rightarrow> Inr evaluation_id
      | Inl e \<Rightarrow>
          (case db_rollback db of
             Some e' \<Rightarrow> Inl e'
           | None \<Rightarrow> Inr None))"

text \<open>
  Lines 71 to 121. Line 12 imports \<open>compute_risk_score\<close> and
  \<open>get_risk_recommendations\<close> from \<open>logic.risk_calculator\<close>. The outer handler turns
  every exception of the body into the HTTP error 500.
\<close>

definition evaluate_risk :: "RiskRequest \<Rightarrow> Session \<Rightarrow> http_error + RiskResponse" where
  "evaluate_risk req db =
     (case
        bind (calculator_compute_risk_score (req_user_id req) (req_companyName req)
                (req_debtToEquity req) (req_netProfit req) (req_negativeNewsScore req)
                (req_latePaymentsRate req) (req_sector req) (Some (req_additionalFactors req)))
          (\<lambda>(score, risk_level, explanation_list).
             let recommendations = get_risk_recommendations risk_level score (req_sector req)
             in bind (store_evaluation req db score risk_level explanation_list)
                  (\<lambda>evaluation_id.
                     Inr \<lparr>resp_score = score,
                          resp_explanations = explanation_list,
                          resp_recommendation = risk_level,
                          resp_recommendations = recommendations,
                          resp_evaluation_id = evaluation_id\<rparr>))
      of
        Inl e \<Rightarrow> Inl (HTTPException 500 e)
      | Inr response \<Rightarrow> Inr response)"

section \<open>Example requests and sessions\<close>

text \<open>
  The low risk scenario of \<open>tests/test_logic.py\<close> and a company in distress, as
  requests; a session that stores the row under the id 1, a session whose \<open>commit\<close>
  raises, and a session whose \<open>commit\<close> and \<open>rollback\<close> both raise.
\<close>

definition request_low_risk :: RiskRequest where
  "request_low_risk =
     \<lparr>req_user_id = ''test_user'', req_companyName = ''Low Risk Corp'',
      req_debtToEquity = 1.0, req_netProfit = 5000, req_negativeNewsScore = 0.1,
      req_latePaymentsRate = 0.05, req_sector = ''general'', req_additionalFactors = []\<rparr>"

definition request_distressed :: RiskRequest where
  "request_distressed =
     \<lparr>req_user_id = ''test_user'', req_companyName = ''Extreme Risk Corp'',
      req_debtToEquity = 5.0, req_netProfit = - 200000, req_negativeNewsScore = 1.0,
      req_latePaymentsRate = 0.5, req_sector = ''general'', req_additionalFactors = []\<rparr>"

definition session_ok :: Session where
  "session_ok =
     \<lparr>db_add = (\<lambda>ev. None), db_commit = (\<lambda>ev. None),
      db_refresh = (\<lambda>ev. Inr (ev\<lparr>ev_id := Some 1\<rparr>)), db_rollback = None\<rparr>"

definition session_commit_fails :: Session where
  "session_commit_fails =
     \<lparr>db_add = (\<lambda>ev. None),
      db_commit = (\<lambda>ev. Some (SQLAlchemyError ''database is locked'')),
      db_refresh = (\<lambda>ev. Inr (ev\<lparr>ev_id := Some 1\<rparr>)), db_rollback = None\<rparr>"

definition session_rollback_fails :: Session where
  "session_rollback_fails =
     \<lparr>db_add = (\<lambda>ev. None),
      db_commit = (\<lambda>ev. Some (SQLAlchemyError ''database is locked'')),
      db_refresh = (\<lambda>ev. Inr (ev\<lparr>ev_id := Some 1\<rparr>)),
      db_rollback = Some (SQLAlchemyError ''connection lost'')\<rparr>"

text \<open>The responses the weighted engine and the recommendations give to the two requests.\<close>

definition response_low_risk :: "int option \<Rightarrow> RiskResponse" where
  "response_low_risk evaluation_id =
     \<lparr>resp_score = 25,
      resp_explanations =
        [''Debt-to-equity ratio is within healthy range'',
         ''Modest positive net profit'',
         ''Low negative news coverage'',
         ''Low rate of late payments suggests good cash flow management'',
         ''General sector has moderate baseline risk''],
      resp_recommendation = ''Low Risk'',
      resp_recommendations =
        [''Maintain current financial practices'', ''Annual risk reassessment recommended''],
      resp_evaluation_id = evaluation_id\<rparr>"

definition response_distressed :: "int option \<Rightarrow> RiskResponse" where
  "response_distressed evaluation_id =
     \<lparr>resp_score = 100,
      resp_explanations =
        [''Very high debt-to-equity ratio indicates significant financial leverage'',
         ''Significant losses indicate serious financial challenges'',
         ''High negative news coverage suggests significant reputational risk'',
         ''High rate of late payments suggests cash flow problems'',
         ''General sector has moderate baseline risk''],
      resp_recommendation = ''High Risk'',
      resp_recommendations =
        [''Conduct immediate comprehensive financial review'',
         ''Develop debt reduction strategy'',
         ''Implement stricter accounts receivable policies'',
         ''Consider external financial expertise/restructuring''],
      resp_evaluation_id = evaluation_id\<rparr>"

section \<open>Properties of the additive engine\<close>

lemma foldl_process_factor: "foldl process_factor st items = st"
  by (induction items) (simp_all add: process_factor_def split: prod.splits)

lemma process_additional_factors_id: "process_additional_factors additional_factors st = st"
  by (simp add: process_additional_factors_def foldl_process_factor split: option.splits)

lemma lower_oil: "lower ''oil'' = ''oil''"
  by code_simp

lemma lower_technology: "lower ''technology'' = ''technology''"
  by code_simp

lemma scoring_compute_unfold:
  "scoring_compute_risk_score u c d p n l s af =
     (cap_score (fst (scoring_rules d p n l s)),
      scoring_risk_level (cap_score (fst (scoring_rules d p n l s))),
      snd (scoring_rules d p n l s))"
  by (simp add: scoring_compute_risk_score_def process_additional_factors_id Let_def
        split: prod.splits)

lemma scoring_rules_fst:
  "fst (scoring_rules d p n l s) =
     (if d > 2 then 0.30 else 0) + (if p < 0 then 0.20 else 0) +
     (if n > 0.5 then 0.20 else 0) + (if l > 0.1 then 0.15 else 0) +
     (if lower s \<in> set [''oil'', ''gas'', ''energy''] then 0.10 else 0)"
  by (simp add: scoring_rules_def)

lemma scoring_rules_snd:
  "snd (scoring_rules d p n l s) =
     (if d > 2 then [''High debt-to-equity ratio''] else []) @
     (if p < 0 then [''Negative profitability''] else []) @
     (if n > 0.5 then [''Significant negative news''] else []) @
     (if l > 0.1 then [''High late payments rate''] else []) @
     (if lower s \<in> set [''oil'', ''gas'', ''energy''] then [''High-volatility sector''] else [])"
  by (simp add: scoring_rules_def)

lemma scoring_rules_bounds:
  "0 \<le> fst (scoring_rules d p n l s) \<and> fst (scoring_rules d p n l s) \<le> 0.95"
  unfolding scoring_rules_fst by simp

text \<open>
  Claim C2. For every input, the score of the additive engine is the sum of the
  contributions of the rules that trigger (0.30 when \<open>debtToEquity > 2\<close>, 0.20 when
  \<open>netProfit < 0\<close>, 0.20 when \<open>negativeNewsScore > 0.5\<close>, 0.15 when
  \<open>latePaymentsRate > 0.1\<close>, 0.10 when the lower-cased sector is oil, gas or energy; all
  comparisons strict), replaced by 1 when the sum exceeds 1, and the explanations are
  the strings of the triggered rules in that order.
\<close>

theorem compute_risk_score_sums_triggered_rules:
  "(let total = (if d > 2 then 0.30 else 0) + (if p < 0 then 0.20 else 0) +
                (if n > 0.5 then 0.20 else 0) + (if l > 0.1 then 0.15 else 0) +
                (if lower s \<in> set [''oil'', ''gas'', ''energy''] then 0.10 else 0)
    in fst (scoring_compute_risk_score u c d p n l s af) = (if total > 1 then 1 else total)) \<and>
   snd (snd (scoring_compute_risk_score u c d p n l s af)) =
     (if d > 2 then [''High debt-to-equity ratio''] else []) @
     (if p < 0 then [''Negative profitability''] else []) @
     (if n > 0.5 then [''Significant negative news''] else []) @
     (if l > 0.1 then [''High late payments rate''] else []) @
     (if lower s \<in> set [''oil'', ''gas'', ''energy''] then [''High-volatility sector''] else [])"
  unfolding scoring_compute_unfold Let_def fst_conv snd_conv scoring_rules_snd
  by (simp add: cap_score_def scoring_rules_fst)

text \<open>
  Claim C3. For every input, whatever its numbers and strings, the additive engine
  returns a score between 0 and 1: it has no rejecting branch, and the cap bounds the
  score from above.
\<close>

theorem compute_risk_score_in_unit_interval:
  "0 \<le> fst (scoring_compute_risk_score u c d p n l s af) \<and>
   fst (scoring_compute_risk_score u c d p n l s af) \<le> 1"
  using scoring_rules_bounds [of d p n l s]
  by (simp add: scoring_compute_unfold cap_score_def)

text \<open>
  Claim C4. The risk level the additive engine returns is a function of the score it
  returns, with exhaustive and exclusive bands: High Risk exactly when the score is at
  least 0.7, Medium Risk exactly when it is at least 0.4 and below 0.7, Low Risk exactly
  when it is below 0.4.
\<close>

theorem risk_level_bands:
  "(case scoring_compute_risk_score u c d p n l s af of (score, risk_level, expl) \<Rightarrow>
      risk_level = scoring_risk_level score \<and>
      (score \<ge> 0.7 \<longleftrightarrow> risk_level = ''High Risk'') \<and>
      (0.4 \<le> score \<and> score < 0.7 \<longleftrightarrow> risk_level = ''Medium Risk'') \<and>
      (score < 0.4 \<longleftrightarrow> risk_level = ''Low Risk''))"
  by (simp add: scoring_compute_unfold scoring_risk_level_def)

text \<open>
  Claim C7. For two inputs that differ only in the sector, oil against technology, the
  score before the cap is exactly 0.10 higher for oil, and the returned score for oil is
  at least the returned score for technology.
\<close>

theorem sector_oil_adds_a_tenth:
  "fst (scoring_rules d p n l ''oil'') = fst (scoring_rules d p n l ''technology'') + 0.10 \<and>
   fst (scoring_compute_risk_score u c d p n l ''oil'' af) \<ge>
     fst (scoring_compute_risk_score u c d p n l ''technology'' af)"
  unfolding scoring_compute_unfold fst_conv
  using scoring_rules_bounds [of d p n l "''oil''"]
    scoring_rules_bounds [of d p n l "''technology''"]
  by (simp add: scoring_rules_fst lower_oil lower_technology cap_score_def)

section \<open>Properties of the recommendations\<close>

text \<open>
  Claim C9. For every risk level string, score and sector the recommendation generator
  returns at least two recommendations, and a risk level other than High Risk and
  Medium Risk, expected or not, yields exactly the two Low Risk recommendations.
\<close>

theorem recommendations_at_least_two:
  "length (get_risk_recommendations risk_level score sector) \<ge> 2 \<and>
   (risk_level \<noteq> ''High Risk'' \<and> risk_level \<noteq> ''Medium Risk'' \<longrightarrow>
      get_risk_recommendations risk_level score sector =
        [''Maintain current financial practices'', ''Annual risk reassessment recommended''])"
  by (simp add: get_risk_recommendations_def Let_def)

theorem recommendations_at_least_two_witness:
  "''Unknown'' \<noteq> ''High Risk'' \<and> ''Unknown'' \<noteq> ''Medium Risk'' \<and>
   length (get_risk_recommendations ''Unknown'' 0.5 ''general'') \<ge> 2 \<and>
   get_risk_recommendations ''Unknown'' 0.5 ''general'' =
     [''Maintain current financial practices'', ''Annual risk reassessment recommended'']"
  using recommendations_at_least_two [of "''Unknown''" "0.5" "''general''"]
  by simp

section \<open>Properties of the weighted engine and of the route\<close>

lemma foldl_calculator_process_factor: "foldl calculator_process_factor st items = st"
  by (induction items) (simp_all add: calculator_process_factor_def split: prod.splits)

lemma calculator_process_additional_factors_id:
  "calculator_process_additional_factors additional_factors st = st"
  by (simp add: calculator_process_additional_factors_def foldl_calculator_process_factor
        split: option.splits)

lemma weighted_base_score_value:
  "weighted_base_score a b c d = Inr (0.30 * a + 0.25 * b + 0.20 * c + 0.25 * d)"
  by (simp add: weighted_base_score_def bind_def getitem_def WEIGHTS_def)

lemma sector_multiplier_of_value:
  "sector_multiplier_of k =
     Inr (case map_of SECTOR_ADJUSTMENTS k of None \<Rightarrow> 1 | Some m \<Rightarrow> m)"
  by (simp add: sector_multiplier_of_def bind_def getitem_def SECTOR_ADJUSTMENTS_def)

text \<open>The weighted engine never raises; its result in closed form.\<close>

lemma calculator_unfold:
  "calculator_compute_risk_score u c d p n l s af =
     (let fd = calculate_debt_to_equity_factor d [];
          fp = calculate_net_profit_factor p (snd fd);
          fn = calculate_negative_news_factor n (snd fp);
          fl = calculate_late_payments_factor l (snd fn);
          m = (case map_of SECTOR_ADJUSTMENTS (lower s) of None \<Rightarrow> 1 | Some m \<Rightarrow> m);
          raw = (0.30 * fst fd + 0.25 * fst fp + 0.20 * fst fn + 0.25 * fst fl) * m * 100;
          final = (if raw > 100 then 100 else raw)
      in Inr (final, calculator_risk_level final, snd fl @ [sector_explanation s m]))"
  by (simp add: calculator_compute_risk_score_def Let_def bind_def weighted_base_score_value
        sector_multiplier_of_value calculator_process_additional_factors_id
        split: prod.splits)

text \<open>
  Claim C8. Two inputs that differ only in the additional factors (absent, empty or not)
  get the same score, risk level and explanations, from the additive engine and from the
  weighted engine alike.
\<close>

theorem additional_factors_have_no_effect:
  "scoring_compute_risk_score u c d p n l s af1 = scoring_compute_risk_score u c d p n l s af2 \<and>
   calculator_compute_risk_score u c d p n l s af1 =
     calculator_compute_risk_score u c d p n l s af2"
  by (simp add: scoring_compute_unfold calculator_unfold)

lemma evaluate_risk_Inr:
  assumes "evaluate_risk req db = Inr resp"
  shows "calculator_compute_risk_score (req_user_id req) (req_companyName req)
           (req_debtToEquity req) (req_netProfit req) (req_negativeNewsScore req)
           (req_latePaymentsRate req) (req_sector req) (Some (req_additionalFactors req)) =
         Inr (resp_score resp, resp_recommendation resp, resp_explanations resp) \<and>
         resp_recommendations resp =
           get_risk_recommendations (resp_recommendation resp) (resp_score resp) (req_sector req) \<and>
         store_evaluation req db (resp_score resp) (resp_recommendation resp)
           (resp_explanations resp) = Inr (resp_evaluation_id resp)"
  using assms
  by (auto simp: evaluate_risk_def bind_def Let_def split: sum.splits prod.splits)

text \<open>The route on the example requests and sessions.\<close>

lemma lower_general: "lower ''general'' = ''general''"
  by code_simp

lemma capitalize_general: "capitalize ''general'' = ''General''"
  by code_simp

lemmas calculator_eval =
  calculator_unfold Let_def calculate_debt_to_equity_factor_def
  calculate_net_profit_factor_def calculate_negative_news_factor_def
  calculate_late_payments_factor_def lower_general capitalize_general
  SECTOR_ADJUSTMENTS_def sector_explanation_def calculator_risk_level_def

lemma store_evaluation_session_ok: "store_evaluation req session_ok sc lv ex = Inr (Some 1)"
  by (simp add: store_evaluation_def store_attempt_def session_ok_def Let_def)

lemma store_attempt_session_commit_fails:
  "store_attempt req session_commit_fails sc lv ex =
     Inl (SQLAlchemyError ''database is locked'')"
  by (simp add: store_attempt_def session_commit_fails_def Let_def)

lemma store_evaluation_session_rollback_fails:
  "store_evaluation req session_rollback_fails sc lv ex =
     Inl (SQLAlchemyError ''connection lost'')"
  by (simp add: store_evaluation_def store_attempt_def session_rollback_fails_def Let_def)

lemma calculator_request_low_risk:
  "calculator_compute_risk_score (req_user_id request_low_risk)
     (req_companyName request_low_risk) (req_debtToEquity request_low_risk)
     (req_netProfit request_low_risk) (req_negativeNewsScore request_low_risk)
     (req_latePaymentsRate request_low_risk) (req_sector request_low_risk)
     (Some (req_additionalFactors request_low_risk)) =
   Inr (resp_score (response_low_risk x), resp_recommendation (response_low_risk x),
        resp_explanations (response_low_risk x))"
  by (simp add: request_low_risk_def response_low_risk_def calculator_eval
        del: capitalize.simps)

lemma evaluate_low_risk_session_ok:
  "evaluate_risk request_low_risk session_ok = Inr (response_low_risk (Some 1))"
  by (simp add: evaluate_risk_def request_low_risk_def response_low_risk_def calculator_eval
        bind_def store_evaluation_session_ok get_risk_recommendations_def
        del: capitalize.simps)

lemma evaluate_distressed_session_ok:
  "evaluate_risk request_distressed session_ok = Inr (response_distressed (Some 1))"
  by (simp add: evaluate_risk_def request_distressed_def response_distressed_def
        calculator_eval bind_def store_evaluation_session_ok get_risk_recommendations_def
        del: capitalize.simps)

lemma evaluate_low_risk_session_rollback_fails:
  "evaluate_risk request_low_risk session_rollback_fails =
     Inl (HTTPException 500 (SQLAlchemyError ''connection lost''))"
  by (simp add: evaluate_risk_def request_low_risk_def calculator_eval bind_def
        store_evaluation_session_rollback_fails del: capitalize.simps)

lemma scoring_request_low_risk:
  "scoring_compute_risk_score (req_user_id request_low_risk)
     (req_companyName request_low_risk) (req_debtToEquity request_low_risk)
     (req_netProfit request_low_risk) (req_negativeNewsScore request_low_risk)
     (req_latePaymentsRate request_low_risk) (req_sector request_low_risk)
     (Some (req_additionalFactors request_low_risk)) = (0, ''Low Risk'', [])"
  by (simp add: request_low_risk_def scoring_compute_unfold scoring_rules_fst
        scoring_rules_snd lower_general cap_score_def scoring_risk_level_def)

lemma restructuring_iff:
  "''Consider external financial expertise/restructuring''
     \<in> set (get_risk_recommendations risk_level score sector) \<longleftrightarrow>
   risk_level = ''High Risk'' \<and> score > 85"
  by (simp add: get_risk_recommendations_def Let_def)

lemma calculator_shape:
  "\<exists>final ex. calculator_compute_risk_score u c d p n l s af =
     Inr (final, calculator_risk_level final, ex)"
  unfolding calculator_unfold Let_def by blast

lemma calculator_level:
  assumes "calculator_compute_risk_score u c d p n l s af = Inr (score, risk_level, expl)"
  shows "risk_level = calculator_risk_level score"
  using assms calculator_shape [of u c d p n l s af] by auto

text \<open>
  Claim C1, as amended. The scoring computation reachable through POST /api/evaluate is
  the weighted engine on the scale from 0 to 100 of \<open>risk_calculator.py\<close>, which line 12
  of \<open>routes.py\<close> imports: whenever the route returns a response, its score, risk level
  and explanations are the output of the weighted engine on the inputs of the request.
\<close>

theorem route_computes_weighted_engine:
  assumes "evaluate_risk req db = Inr resp"
  shows "calculator_compute_risk_score (req_user_id req) (req_companyName req)
           (req_debtToEquity req) (req_netProfit req) (req_negativeNewsScore req)
           (req_latePaymentsRate req) (req_sector req) (Some (req_additionalFactors req)) =
         Inr (resp_score resp, resp_recommendation resp, resp_explanations resp)"
  using evaluate_risk_Inr [OF assms] by simp

theorem route_computes_weighted_engine_witness:
  "evaluate_risk request_low_risk session_ok = Inr (response_low_risk (Some 1)) \<and>
   calculator_compute_risk_score (req_user_id request_low_risk)
     (req_companyName request_low_risk) (req_debtToEquity request_low_risk)
     (req_netProfit request_low_risk) (req_negativeNewsScore request_low_risk)
     (req_latePaymentsRate request_low_risk) (req_sector request_low_risk)
     (Some (req_additionalFactors request_low_risk)) =
   Inr (resp_score (response_low_risk (Some 1)),
        resp_recommendation (response_low_risk (Some 1)),
        resp_explanations (response_low_risk (Some 1)))"
  using route_computes_weighted_engine [OF evaluate_low_risk_session_ok]
    evaluate_low_risk_session_ok
  by simp

text \<open>
  Claim C1 as stated fails: on the low risk scenario the route answers with the score 25
  and five explanations, the additive engine with the score 0 and none.
\<close>

theorem route_is_not_additive_engine_counterexample:
  "evaluate_risk request_low_risk session_ok = Inr (response_low_risk (Some 1)) \<and>
   (resp_score (response_low_risk (Some 1)),
    resp_recommendation (response_low_risk (Some 1)),
    resp_explanations (response_low_risk (Some 1))) \<noteq>
   scoring_compute_risk_score (req_user_id request_low_risk)
     (req_companyName request_low_risk) (req_debtToEquity request_low_risk)
     (req_netProfit request_low_risk) (req_negativeNewsScore request_low_risk)
     (req_latePaymentsRate request_low_risk) (req_sector request_low_risk)
     (Some (req_additionalFactors request_low_risk))"
  by (simp add: evaluate_low_risk_session_ok scoring_request_low_risk response_low_risk_def)

text \<open>
  Claim C5, as amended. The branch \<open>score > 85\<close> of the recommendation generator is
  unreachable for the scores of the additive engine, which is not the engine the route
  calls: with them the restructuring recommendation never appears. On the route, whose
  scores run from 0 to 100, the restructuring recommendation is among the returned
  recommendations exactly when the returned score exceeds 85.
\<close>

theorem restructuring_only_above_85:
  "''Consider external financial expertise/restructuring''
     \<notin> set (get_risk_recommendations
              (fst (snd (scoring_compute_risk_score u c d p n l s af)))
              (fst (scoring_compute_risk_score u c d p n l s af)) s) \<and>
   (evaluate_risk req db = Inr resp \<longrightarrow>
      (''Consider external financial expertise/restructuring''
         \<in> set (resp_recommendations resp) \<longleftrightarrow> resp_score resp > 85))"
proof
  have "fst (scoring_compute_risk_score u c d p n l s af) \<le> 1"
    using scoring_rules_bounds [of d p n l s]
    by (simp add: scoring_compute_unfold cap_score_def)
  then show "''Consider external financial expertise/restructuring''
     \<notin> set (get_risk_recommendations
              (fst (snd (scoring_compute_risk_score u c d p n l s af)))
              (fst (scoring_compute_risk_score u c d p n l s af)) s)"
    by (simp add: restructuring_iff)
next
  show "evaluate_risk req db = Inr resp \<longrightarrow>
      (''Consider external financial expertise/restructuring''
         \<in> set (resp_recommendations resp) \<longleftrightarrow> resp_score resp > 85)"
  proof
    assume ok: "evaluate_risk req db = Inr resp"
    note facts = evaluate_risk_Inr [OF ok]
    from facts have lv: "resp_recommendation resp = calculator_risk_level (resp_score resp)"
      by (blast dest: calculator_level)
    from facts have "resp_recommendations resp =
        get_risk_recommendations (resp_recommendation resp) (resp_score resp) (req_sector req)"
      by simp
    then show "''Consider external financial expertise/restructuring''
         \<in> set (resp_recommendations resp) \<longleftrightarrow> resp_score resp > 85"
      using lv by (auto simp: restructuring_iff calculator_risk_level_def split: if_splits)
  qed
qed

theorem restructuring_only_above_85_witness:
  "evaluate_risk request_distressed session_ok = Inr (response_distressed (Some 1)) \<and>
   ''Consider external financial expertise/restructuring''
     \<in> set (resp_recommendations (response_distressed (Some 1))) \<and>
   resp_score (response_distressed (Some 1)) > 85 \<and>
   ''Consider external financial expertise/restructuring''
     \<notin> set (get_risk_recommendations
              (fst (snd (scoring_compute_risk_score ''u'' ''c'' 5 (- 200000) 1 0.5
                           ''general'' None)))
              (fst (scoring_compute_risk_score ''u'' ''c'' 5 (- 200000) 1 0.5 ''general'' None))
              ''general'')"
  using restructuring_only_above_85 [of "''u''" "''c''" 5 "- 200000" 1 "0.5" "''general''" None
      request_distressed session_ok "response_distressed (Some 1)"]
    evaluate_distressed_session_ok
  by (simp add: response_distressed_def)

text \<open>
  Claim C5 as stated fails: for the company in distress the route returns the score 100
  and the restructuring recommendation.
\<close>

theorem restructuring_reachable_counterexample:
  "evaluate_risk request_distressed session_ok = Inr (response_distressed (Some 1)) \<and>
   ''Consider external financial expertise/restructuring''
     \<in> set (resp_recommendations (response_distressed (Some 1)))"
  by (simp add: evaluate_distressed_session_ok response_distressed_def)

text \<open>
  Claim C6: a failure to store the evaluation is not fatal, and the route still answers
  with the full assessment and the evaluation id \<open>None\<close>. The inner \<open>try\<close> of the route
  (lines 88 to 109) is there for this, and the code does so as long as the
  \<open>db.rollback()\<close> of its handler (line 108) returns.
\<close>

lemma storage_failure_when_rollback_returns:
  assumes "calculator_compute_risk_score (req_user_id req) (req_companyName req)
             (req_debtToEquity req) (req_netProfit req) (req_negativeNewsScore req)
             (req_latePaymentsRate req) (req_sector req) (Some (req_additionalFactors req)) =
           Inr (score, risk_level, expl)"
    and "store_attempt req db score risk_level expl = Inl e"
    and "db_rollback db = None"
  shows "evaluate_risk req db =
           Inr \<lparr>resp_score = score, resp_explanations = expl,
                resp_recommendation = risk_level,
                resp_recommendations = get_risk_recommendations risk_level score (req_sector req),
                resp_evaluation_id = None\<rparr>"
  using assms by (simp add: evaluate_risk_def bind_def store_evaluation_def Let_def)

lemma evaluate_low_risk_session_commit_fails:
  "evaluate_risk request_low_risk session_commit_fails = Inr (response_low_risk None)"
proof -
  have rb: "db_rollback session_commit_fails = None"
    by (simp add: session_commit_fails_def)
  have "get_risk_recommendations (resp_recommendation (response_low_risk None))
          (resp_score (response_low_risk None)) (req_sector request_low_risk) =
        resp_recommendations (response_low_risk None)"
    by (simp add: response_low_risk_def get_risk_recommendations_def)
  with storage_failure_when_rollback_returns
         [OF calculator_request_low_risk store_attempt_session_commit_fails rb, of None]
  show ?thesis by (simp add: response_low_risk_def)
qed

text \<open>
  The code departs from claim C6 when the rollback raises as well. The call on line 108
  stands unguarded inside the handler of the inner \<open>try\<close>, so its exception leaves the
  handler, is caught by the outer \<open>except Exception\<close> (line 119) and comes back as the
  HTTP error 500: on a request the engine scores, with a session whose commit raises and
  whose rollback raises too, the store attempt fails and the route returns no assessment.
\<close>

theorem rollback_failure_is_fatal_counterexample:
  "calculator_compute_risk_score (req_user_id request_low_risk)
     (req_companyName request_low_risk) (req_debtToEquity request_low_risk)
     (req_netProfit request_low_risk) (req_negativeNewsScore request_low_risk)
     (req_latePaymentsRate request_low_risk) (req_sector request_low_risk)
     (Some (req_additionalFactors request_low_risk)) =
     Inr (resp_score (response_low_risk None), resp_recommendation (response_low_risk None),
          resp_explanations (response_low_risk None)) \<and>
   store_attempt request_low_risk session_rollback_fails
     (resp_score (response_low_risk None)) (resp_recommendation (response_low_risk None))
     (resp_explanations (response_low_risk None)) =
     Inl (SQLAlchemyError ''database is locked'') \<and>
   evaluate_risk request_low_risk session_rollback_fails =
     Inl (HTTPException 500 (SQLAlchemyError ''connection lost''))"
proof (intro conjI)
  show "calculator_compute_risk_score (req_user_id request_low_risk)
     (req_companyName request_low_risk) (req_debtToEquity request_low_risk)
     (req_netProfit request_low_risk) (req_negativeNewsScore request_low_risk)
     (req_latePaymentsRate request_low_risk) (req_sector request_low_risk)
     (Some (req_additionalFactors request_low_risk)) =
     Inr (resp_score (response_low_risk None), resp_recommendation (response_low_risk None),
          resp_explanations (response_low_risk None))"
    by (rule calculator_request_low_risk)
next
  show "store_attempt request_low_risk session_rollback_fails
     (resp_score (response_low_risk None)) (resp_recommendation (response_low_risk None))
     (resp_explanations (response_low_risk None)) =
     Inl (SQLAlchemyError ''database is locked'')"
    by (simp add: store_attempt_def session_rollback_fails_def Let_def)
next
  show "evaluate_risk request_low_risk session_rollback_fails =
     Inl (HTTPException 500 (SQLAlchemyError ''connection lost''))"
    by (rule evaluate_low_risk_session_rollback_fails)
qed

section \<open>Properties of the stored explanations\<close>

text \<open>
  What \<open>json.loads\<close> reads from the text \<open>json.dumps\<close> wrote. First the digits: the
  four hexadecimal digits of \<open>hex4\<close> are read back by \<open>decode_uXXXX\<close>.
\<close>

lemma char_of_eq_lit: "n < 256 \<Longrightarrow> (char_of (n::nat) = c) = (n = of_char c)"
  by auto

lemma hex_value_hex_digit: "d < 16 \<Longrightarrow> hex_value (hex_digit d) = Some d"
  by (simp add: hex_value_def hex_digit_def Let_def)

lemma hex4_sum:
  fixes n x y z :: nat
  assumes "y = z * 16 + b" and "x = y * 16 + c" and "n = x * 16 + d"
  shows "((z * 16 + b) * 16 + c) * 16 + d = n"
  using assms by simp

lemma hex4_value:
  assumes "(n::nat) < 0x10000"
  shows "((n div 4096 mod 16 * 16 + n div 256 mod 16) * 16 + n div 16 mod 16) * 16 + n mod 16 = n"
proof -
  have y: "n div 256 = n div 16 div 16"
    using div_mult2_eq [of n 16 16] by simp
  have z: "n div 4096 = n div 256 div 16"
    using div_mult2_eq [of n 256 16] by simp
  have "n div 4096 < 16"
    using assms by (simp add: div_less_iff_less_mult)
  then have m: "n div 4096 mod 16 = n div 4096"
    by (rule mod_less)
  have 1: "n div 256 = n div 4096 * 16 + n div 256 mod 16"
    unfolding z by (rule div_mult_mod_eq [symmetric])
  have 2: "n div 16 = n div 256 * 16 + n div 16 mod 16"
    unfolding y by (rule div_mult_mod_eq [symmetric])
  have 3: "n = n div 16 * 16 + n mod 16"
    by (rule div_mult_mod_eq [symmetric])
  show ?thesis
    unfolding m by (rule hex4_sum [OF 1 2 3])
qed

lemma decode_hex4: "n < 0x10000 \<Longrightarrow> decode_uXXXX (hex4 n @ t) = Inr n"
  using hex4_value [of n]
  by (simp add: decode_uXXXX_def hex4_def hex_value_hex_digit)

lemma map_of_ESCAPE_DCT:
  "map_of ESCAPE_DCT a =
     (if a = 0x5C then Some [CHR 0x5C, CHR 0x5C]
      else if a = 0x22 then Some [CHR 0x5C, CHR 0x22]
      else if a = 0x08 then Some [CHR 0x5C, CHR ''b'']
      else if a = 0x0C then Some [CHR 0x5C, CHR ''f'']
      else if a = 0x0A then Some [CHR 0x5C, CHR ''n'']
      else if a = 0x0D then Some [CHR 0x5C, CHR ''r'']
      else if a = 0x09 then Some [CHR 0x5C, CHR ''t'']
      else None)"
  by (simp add: ESCAPE_DCT_def)

lemma scan_escape_short_values:
  "scan_escape (CHR 0x5C # t) = Inr (0x5C, t)"
  "scan_escape (CHR 0x22 # t) = Inr (0x22, t)"
  "scan_escape (CHR ''b'' # t) = Inr (0x08, t)"
  "scan_escape (CHR ''f'' # t) = Inr (0x0C, t)"
  "scan_escape (CHR ''n'' # t) = Inr (0x0A, t)"
  "scan_escape (CHR ''r'' # t) = Inr (0x0D, t)"
  "scan_escape (CHR ''t'' # t) = Inr (0x09, t)"
  by (simp_all add: scan_escape_def BACKSLASH_def)

lemma scan_escape_short:
  assumes "map_of ESCAPE_DCT a = Some e"
  shows "hd e = CHR 0x5C \<and> scan_escape (tl e @ t) = Inr (a, t)"
proof -
  from assms consider
      "a = 0x5C" "e = [CHR 0x5C, CHR 0x5C]"
    | "a = 0x22" "e = [CHR 0x5C, CHR 0x22]"
    | "a = 0x08" "e = [CHR 0x5C, CHR ''b'']"
    | "a = 0x0C" "e = [CHR 0x5C, CHR ''f'']"
    | "a = 0x0A" "e = [CHR 0x5C, CHR ''n'']"
    | "a = 0x0D" "e = [CHR 0x5C, CHR ''r'']"
    | "a = 0x09" "e = [CHR 0x5C, CHR ''t'']"
    unfolding map_of_ESCAPE_DCT by (metis option.inject option.distinct(1))
  then show ?thesis
    by cases (simp_all only: list.sel append.simps scan_escape_short_values simp_thms)
qed

lemma scan_escape_u:
  assumes "a < 0x10000"
    and "high_surrogate a \<Longrightarrow> take 2 t = [CHR 0x5C, CHR ''u''] \<Longrightarrow>
           \<exists>u. decode_uXXXX (drop 2 t) = Inr u \<and> \<not> low_surrogate u"
  shows "scan_escape (CHR ''u'' # hex4 a @ t) = Inr (a, t)"
proof -
  have len: "length (hex4 a) = 4"
    by (simp add: hex4_def)
  have dec: "decode_uXXXX (hex4 a @ t) = Inr a"
    using assms(1) by (rule decode_hex4)
  show ?thesis
  proof (cases "high_surrogate a \<and> take 2 t = [CHR 0x5C, CHR ''u'']")
    case True
    with assms(2) obtain u where "decode_uXXXX (drop 2 t) = Inr u" "\<not> low_surrogate u"
      by blast
    with True show ?thesis
      by (simp add: scan_escape_def dec len high_surrogate_def low_surrogate_def)
  next
    case False
    then show ?thesis
      by (auto simp: scan_escape_def dec len high_surrogate_def)
  qed
qed

lemma surrogates_value:
  assumes "(n::nat) < 0x100000"
  shows "n div 1024 mod 1024 * 1024 + n mod 1024 = n"
proof -
  have "n div 1024 < 1024"
    using assms by (simp add: div_less_iff_less_mult)
  then have "n div 1024 mod 1024 = n div 1024"
    by (rule mod_less)
  then show ?thesis
    by simp
qed

lemma scan_escape_pair:
  assumes "0x10000 \<le> a" and "a < 0x110000"
  shows "scan_escape (CHR ''u'' # hex4 (0xd800 + (a - 0x10000) div 1024 mod 1024) @
           [CHR 0x5C, CHR ''u''] @ hex4 (0xdc00 + (a - 0x10000) mod 1024) @ t) = Inr (a, t)"
proof -
  define n where "n = a - 0x10000"
  define s1 where "s1 = 0xd800 + n div 1024 mod 1024"
  define s2 where "s2 = 0xdc00 + n mod 1024"
  have n: "n < 0x100000" and a: "a = 0x10000 + n"
    using assms by (simp_all add: n_def)
  have m1: "n div 1024 mod 1024 < 1024" and m2: "n mod 1024 < 1024"
    by simp_all
  have s1: "0xd800 \<le> s1" "s1 \<le> 0xdbff" "s1 < 0x10000"
    using m1 by (simp_all add: s1_def)
  have s2: "0xdc00 \<le> s2" "s2 \<le> 0xdfff" "s2 < 0x10000"
    using m2 by (simp_all add: s2_def)
  have len: "length (hex4 s1) = 4" "length (hex4 s2) = 4"
    by (simp_all add: hex4_def)
  have d1: "decode_uXXXX (hex4 s1 @ r) = Inr s1" for r
    using s1(3) by (rule decode_hex4)
  have d2: "decode_uXXXX (hex4 s2 @ r) = Inr s2" for r
    using s2(3) by (rule decode_hex4)
  have v: "(s1 - 0xd800) * 1024 + (s2 - 0xdc00) = n"
    using surrogates_value [OF n] by (simp add: s1_def s2_def)
  have "scan_escape (CHR ''u'' # hex4 s1 @ [CHR 0x5C, CHR ''u''] @ hex4 s2 @ t) = Inr (a, t)"
    using s1 s2 by (simp add: scan_escape_def d1 d2 len v a)
  then show ?thesis
    by (simp add: s1_def s2_def n_def)
qed
lemma scan_escape_replace:
  assumes "a < 0x110000"
    and "high_surrogate a \<Longrightarrow> take 2 t = [CHR 0x5C, CHR ''u''] \<Longrightarrow>
           \<exists>u. decode_uXXXX (drop 2 t) = Inr u \<and> \<not> low_surrogate u"
  shows "\<exists>e. replace a = CHR 0x5C # e \<and> scan_escape (e @ t) = Inr (a, t)"
proof (cases "map_of ESCAPE_DCT a")
  case (Some e)
  from scan_escape_short [OF Some, of t] have "e \<noteq> [] \<Longrightarrow> e = CHR 0x5C # tl e"
    by (cases e) simp_all
  moreover from Some have "e \<noteq> []"
    by (auto simp: map_of_ESCAPE_DCT split: if_splits)
  ultimately have "e = CHR 0x5C # tl e"
    by simp
  moreover have "replace a = e"
    by (simp add: replace_def Some)
  ultimately show ?thesis
    using scan_escape_short [OF Some, of t] by metis
next
  case None
  show ?thesis
  proof (cases "a < 0x10000")
    case True
    then have "replace a = CHR 0x5C # CHR ''u'' # hex4 a"
      by (simp add: replace_def None)
    then show ?thesis
      using scan_escape_u [OF True assms(2)] by simp
  next
    case False
    then have "replace a = CHR 0x5C # CHR ''u'' # hex4 (0xd800 + (a - 0x10000) div 1024 mod 1024) @
           [CHR 0x5C, CHR ''u''] @ hex4 (0xdc00 + (a - 0x10000) mod 1024)"
      by (simp add: replace_def None Let_def)
    then show ?thesis
      using scan_escape_pair [of a t] False assms(1) by simp
  qed
qed

lemma short_escape_shape:
  assumes "map_of ESCAPE_DCT a = Some e"
  shows "\<exists>c. e = [CHR 0x5C, c] \<and> c \<noteq> CHR ''u''"
  using assms unfolding map_of_ESCAPE_DCT by (auto split: if_splits)

lemma take2_escape_u:
  assumes "take 2 (escape_ascii b @ t) = [CHR 0x5C, CHR ''u'']" and "b < 0x110000"
  shows "\<exists>u. decode_uXXXX (drop 2 (escape_ascii b @ t)) = Inr u \<and>
             (u = b \<or> \<not> low_surrogate u)"
proof (cases "b = 0x5C \<or> b = 0x22 \<or> b < 0x20 \<or> 0x7E < b")
  case False
  then have "escape_ascii b = [char_of b]" "b < 256" "b \<noteq> 0x5C"
    by (simp_all add: escape_ascii_def)
  with assms(1) show ?thesis
    by (simp add: char_of_eq_lit)
next
  case True
  then have esc: "escape_ascii b = replace b"
    by (simp add: escape_ascii_def)
  show ?thesis
  proof (cases "map_of ESCAPE_DCT b")
    case (Some e)
    then have "replace b = e"
      by (simp add: replace_def)
    moreover from short_escape_shape [OF Some] obtain c
      where "e = [CHR 0x5C, c]" "c \<noteq> CHR ''u''"
      by blast
    ultimately show ?thesis
      using assms(1) by (simp add: esc)
  next
    case None
    show ?thesis
    proof (cases "b < 0x10000")
      case True
      then have "replace b = CHR 0x5C # CHR ''u'' # hex4 b"
        by (simp add: replace_def None)
      then show ?thesis
        using decode_hex4 [OF True] by (simp add: esc)
    next
      case False
      define s1 where "s1 = 0xd800 + (b - 0x10000) div 1024 mod 1024"
      have "(b - 0x10000) div 1024 mod 1024 < 1024"
        by simp
      then have s1: "s1 < 0x10000" "\<not> low_surrogate s1"
        by (simp_all add: s1_def low_surrogate_def)
      from False have "replace b = CHR 0x5C # CHR ''u'' # hex4 s1 @
           [CHR 0x5C, CHR ''u''] @ hex4 (0xdc00 + (b - 0x10000) mod 1024)"
        by (simp add: replace_def None Let_def s1_def)
      then show ?thesis
        using decode_hex4 [OF s1(1)] s1(2) by (simp add: esc)
    qed
  qed
qed

lemma no_surrogate_pair_tl: "no_surrogate_pair (a # s) \<Longrightarrow> no_surrogate_pair s"
  by (cases s) simp_all

lemma follow_text_safe:
  assumes "is_str s" and "no_surrogate_pair (a # s)" and "high_surrogate a"
    and "take 2 (concat (map escape_ascii s) @ CHR 0x22 # rest) = [CHR 0x5C, CHR ''u'']"
  shows "\<exists>u. decode_uXXXX (drop 2 (concat (map escape_ascii s) @ CHR 0x22 # rest)) = Inr u \<and>
             \<not> low_surrogate u"
proof (cases s)
  case Nil
  with assms(4) show ?thesis by simp
next
  case (Cons b s')
  let ?t = "concat (map escape_ascii s') @ CHR 0x22 # rest"
  from assms(1) Cons have b: "b < 0x110000"
    by (simp add: is_str_def)
  from assms(4) Cons have "take 2 (escape_ascii b @ ?t) = [CHR 0x5C, CHR ''u'']"
    by simp
  from take2_escape_u [OF this b] obtain u
    where u: "decode_uXXXX (drop 2 (escape_ascii b @ ?t)) = Inr u"
      and "u = b \<or> \<not> low_surrogate u"
    by blast
  moreover from assms(2,3) Cons have "\<not> low_surrogate b"
    by simp
  ultimately have "\<not> low_surrogate u"
    by blast
  with u Cons show ?thesis
    by simp
qed

lemma scanstring_escaped:
  assumes "is_str s" and "no_surrogate_pair s"
  shows "scanstring (concat (map escape_ascii s) @ CHR 0x22 # rest) chunks = Inr (chunks @ s, rest)"
  using assms
proof (induction s arbitrary: chunks)
  case Nil
  show ?case by simp
next
  case (Cons a s)
  let ?t = "concat (map escape_ascii s) @ CHR 0x22 # rest"
  from Cons.prems have a: "a < 0x110000" and s: "is_str s"
    by (simp_all add: is_str_def)
  from Cons.prems have nsp: "no_surrogate_pair s"
    by (blast dest: no_surrogate_pair_tl)
  have IH: "scanstring ?t (chunks @ [a]) = Inr (chunks @ a # s, rest)"
    using Cons.IH [OF s nsp, of "chunks @ [a]"] by simp
  show ?case
  proof (cases "a = 0x5C \<or> a = 0x22 \<or> a < 0x20 \<or> 0x7E < a")
    case False
    then have "escape_ascii a = [char_of a]" "a < 256" "a \<noteq> 0x5C" "a \<noteq> 0x22" "\<not> a < 0x20"
      by (simp_all add: escape_ascii_def)
    then show ?thesis
      using IH by (simp add: char_of_eq_lit)
  next
    case True
    then have esc: "escape_ascii a = replace a"
      by (simp add: escape_ascii_def)
    have "\<exists>u. decode_uXXXX (drop 2 ?t) = Inr u \<and> \<not> low_surrogate u"
      if "high_surrogate a" "take 2 ?t = [CHR 0x5C, CHR ''u'']"
      using follow_text_safe [OF s Cons.prems(2) that] .
    from scan_escape_replace [OF a this] obtain e
      where "replace a = CHR 0x5C # e" "scan_escape (e @ ?t) = Inr (a, ?t)"
      by blast
    then show ?thesis
      using IH by (simp add: esc)
  qed
qed

lemma array_items_encoded_last:
  assumes "is_str x" and "no_surrogate_pair x"
  shows "array_items (py_encode_basestring_ascii x @ CHR '']'' # t) vals = Inr (vals @ [x], t)"
proof -
  have "scanstring (concat (map escape_ascii x) @ CHR 0x22 # CHR '']'' # t) [] =
          Inr (x, CHR '']'' # t)"
    using scanstring_escaped [OF assms, of "CHR '']'' # t" "[]"] by simp
  then show ?thesis
    by (subst array_items.simps) (simp add: py_encode_basestring_ascii_def)
qed

lemma array_items_encoded_next:
  assumes "is_str x" and "no_surrogate_pair x"
  shows "array_items (py_encode_basestring_ascii x @ CHR '','' # t) vals =
           array_items (skip_ws t) (vals @ [x])"
proof -
  have "scanstring (concat (map escape_ascii x) @ CHR 0x22 # CHR '','' # t) [] =
          Inr (x, CHR '','' # t)"
    using scanstring_escaped [OF assms, of "CHR '','' # t" "[]"] by simp
  then show ?thesis
    by (subst array_items.simps) (simp add: py_encode_basestring_ascii_def)
qed

lemma skip_ws_join_encoded:
  "skip_ws (join sep (py_encode_basestring_ascii y # ys) @ t) =
     join sep (py_encode_basestring_ascii y # ys) @ t"
  by (cases ys) (simp_all add: py_encode_basestring_ascii_def)

lemma join_encoded_Cons:
  "\<exists>q. join sep (py_encode_basestring_ascii y # ys) = CHR 0x22 # q"
  by (cases ys) (simp_all add: py_encode_basestring_ascii_def)

lemma array_items_join:
  assumes "v \<noteq> []" and "list_all is_str v" and "list_all no_surrogate_pair v"
  shows "array_items (join '', '' (map py_encode_basestring_ascii v) @ CHR '']'' # rest) vals =
           Inr (vals @ v, rest)"
  using assms
proof (induction v arbitrary: vals)
  case Nil
  then show ?case by simp
next
  case (Cons x v)
  from Cons.prems have x: "is_str x" "no_surrogate_pair x"
    by simp_all
  show ?case
  proof (cases v)
    case Nil
    then show ?thesis
      using array_items_encoded_last [OF x, of rest vals] by simp
  next
    case (Cons y ys)
    have "array_items (join '', '' (map py_encode_basestring_ascii (x # y # ys)) @ CHR '']'' # rest)
            vals =
          array_items (py_encode_basestring_ascii x @
            CHR '','' # CHR 0x20 # join '', '' (map py_encode_basestring_ascii (y # ys)) @
            CHR '']'' # rest) vals"
      by simp
    also have "\<dots> = array_items
        (skip_ws (CHR 0x20 # join '', '' (map py_encode_basestring_ascii (y # ys)) @
           CHR '']'' # rest)) (vals @ [x])"
      by (simp add: array_items_encoded_next [OF x])
    also have "\<dots> = array_items
        (join '', '' (map py_encode_basestring_ascii (y # ys)) @ CHR '']'' # rest) (vals @ [x])"
      by (simp add: skip_ws_join_encoded)
    also have "\<dots> = Inr ((vals @ [x]) @ y # ys, rest)"
      using Cons.IH [of "vals @ [x]"] Cons.prems Cons by simp
    finally show ?thesis
      using Cons by simp
  qed
qed

lemma json_loads_dumps:
  assumes "list_all is_str v" and "list_all no_surrogate_pair v"
  shows "json_loads (json_dumps v) = Inr v"
proof (cases v)
  case Nil
  then show ?thesis
    by (simp add: json_dumps_def json_loads_def JSONArray_def)
next
  case (Cons y ys)
  obtain q
    where q: "join '', '' (py_encode_basestring_ascii y # map py_encode_basestring_ascii ys) =
                CHR 0x22 # q"
    using join_encoded_Cons by blast
  have "array_items (join '', '' (map py_encode_basestring_ascii (y # ys)) @ CHR '']'' # []) [] =
          Inr ([] @ y # ys, [])"
    using array_items_join [of "y # ys" "[]" "[]"] assms Cons by simp
  then have "JSONArray (join '', '' (map py_encode_basestring_ascii (y # ys)) @ '']'') =
          Inr (y # ys, [])"
    by (simp add: JSONArray_def skip_ws_join_encoded) (simp add: q)
  then show ?thesis
    using Cons by (simp add: json_dumps_def json_loads_def)
qed

lemma json_dumps_not_empty: "json_dumps v \<noteq> []"
  by (simp add: json_dumps_def)

text \<open>
  Claim C10, as amended. For every list \<open>v\<close> of strings in which no high surrogate is
  directly followed by a low surrogate, assigning \<open>v\<close> to the property \<open>explanations\<close> and
  reading it back returns \<open>v\<close>, the empty list included; and reading the property of an
  evaluation whose column is unset returns the empty list.
\<close>

theorem explanations_round_trip:
  "(list_all is_str v \<and> list_all no_surrogate_pair v \<longrightarrow>
      explanations (explanations_setter self v) = Inr v) \<and>
   (explanations_json self = None \<longrightarrow> explanations self = Inr [])"
  by (simp add: explanations_def explanations_setter_def json_dumps_not_empty json_loads_dumps)

theorem explanations_round_trip_witness:
  "explanations (explanations_setter new_RiskEvaluation [[72, 105], [0x1F600], []]) =
     Inr [[72, 105], [0x1F600], []] \<and>
   explanations (explanations_setter new_RiskEvaluation []) = Inr [] \<and>
   explanations new_RiskEvaluation = Inr []"
  using explanations_round_trip [of "[[72, 105], [0x1F600], []]" new_RiskEvaluation]
    explanations_round_trip [of "[]" new_RiskEvaluation]
  by (simp add: is_str_def high_surrogate_def low_surrogate_def new_RiskEvaluation_def)

text \<open>
  Claim C10 as stated fails on the list that holds the one string made of the high
  surrogate \<open>0xd800\<close> and the low surrogate \<open>0xdc00\<close>: \<open>json.dumps\<close> writes the two
  escapes \<open>\ud800\udc00\<close>, which \<open>json.loads\<close> reads as the single code point
  \<open>0x10000\<close>.
\<close>

theorem surrogate_pair_counterexample:
  "list_all is_str [[0xD800, 0xDC00]] \<and>
   explanations (explanations_setter new_RiskEvaluation [[0xD800, 0xDC00]]) = Inr [[0x10000]] \<and>
   explanations (explanations_setter new_RiskEvaluation [[0xD800, 0xDC00]]) \<noteq>
     Inr [[0xD800, 0xDC00]]"
proof -
  have "escape_ascii 0xD800 = CHR 0x5C # CHR ''u'' # hex4 0xD800"
    by (simp add: escape_ascii_def replace_def map_of_ESCAPE_DCT)
  moreover have "escape_ascii 0xDC00 = CHR 0x5C # CHR ''u'' # hex4 0xDC00"
    by (simp add: escape_ascii_def replace_def map_of_ESCAPE_DCT)
  ultimately have "json_dumps [[0xD800, 0xDC00]] =
      CHR ''['' # CHR 0x22 # CHR 0x5C # CHR ''u'' # hex4 0xD800 @
        [CHR 0x5C, CHR ''u''] @ hex4 0xDC00 @ [CHR 0x22, CHR '']'']"
    by (simp add: json_dumps_def py_encode_basestring_ascii_def)
  moreover have "scan_escape (CHR ''u'' # hex4 0xD800 @
        [CHR 0x5C, CHR ''u''] @ hex4 0xDC00 @ [CHR 0x22, CHR '']'']) =
      Inr (0x10000, [CHR 0x22, CHR '']''])"
    using scan_escape_pair [of "0x10000" "[CHR 0x22, CHR '']'']"] by simp
  ultimately have "json_loads (json_dumps [[0xD800, 0xDC00]]) = Inr [[0x10000]]"
    by (simp add: json_loads_def JSONArray_def array_items.simps)
  then have "explanations (explanations_setter new_RiskEvaluation [[0xD800, 0xDC00]]) =
      Inr [[0x10000]]"
    by (simp add: explanations_def explanations_setter_def json_dumps_not_empty)
  then show ?thesis
    by (simp add: is_str_def)
qed

end
